theory Spec2Isabelle
  imports Complex_Main "HOL-Library.Sublist"
begin

section \<open>House price prediction service (main.py)\<close>

text \<open>
  The service is one Python module: it unpickles a scaler and a regression model when the
  module is executed, declares a request schema and a response schema, and registers two
  routes, \<^verbatim>\<open>GET /\<close> and \<^verbatim>\<open>POST /predict\<close>.

  What the module does not define itself is taken as a parameter of the model:
  \<^item> the floating point numbers of the interpreter are an arbitrary type \<open>'f\<close>, and equality
    on \<open>'f\<close> is equality of the stored value;
  \<^item> the operations of the interpreter and of the libraries on these numbers that the module
    relies on are the fields of a record \<open>runtime\<close>;
  \<^item> the two pickled artifacts are records of the attributes and methods the handler uses.
\<close>

subsection \<open>Exceptions\<close>

text \<open>
  A value of type \<open>exception\<close> is a raised Python exception that derives from
  \<^verbatim>\<open>Exception\<close>: \<open>cls\<close> is the name of its class and \<open>str\<close> is what \<^verbatim>\<open>str(e)\<close> returns.
  A computation that may raise returns \<open>exception + 'a\<close>, with \<open>Inl\<close> for the raise.
\<close>

datatype exception = Exception (cls: string) (str: string)

definition ValueError :: "string \<Rightarrow> exception" where
  "ValueError msg = Exception ''ValueError'' msg"

definition IndexError :: "string \<Rightarrow> exception" where
  "IndexError msg = Exception ''IndexError'' msg"

definition RuntimeError :: "string \<Rightarrow> exception" where
  "RuntimeError msg = Exception ''RuntimeError'' msg"

definition FileNotFoundError :: "string \<Rightarrow> exception" where
  "FileNotFoundError msg = Exception ''FileNotFoundError'' msg"

text \<open>\<^verbatim>\<open>HTTPException(status_code=..., detail=...)\<close> of the web framework.\<close>

datatype http_exception = HTTPException (status_code: nat) (detail: string)

subsection \<open>Formatting an integer in an f-string\<close>

definition digit_char :: "nat \<Rightarrow> char" where
  "digit_char d = ''0123456789'' ! d"

function str_nat :: "nat \<Rightarrow> string" where
  "str_nat n = (if n < 10 then [digit_char n] else str_nat (n div 10) @ [digit_char (n mod 10)])"
  by pat_completeness auto
termination
  by (relation "measure (\<lambda>n. n)") auto

declare str_nat.simps [simp del]

definition str_int :: "int \<Rightarrow> string" where
  "str_int i = (if i < 0 then CHR ''-'' # str_nat (nat (- i)) else str_nat (nat i))"

subsection \<open>The pickled artifacts and the interpreter's numbers\<close>

text \<open>
  A value of the array library is a floating point scalar or an array of such values along
  its first axis: \<open>Array [Scalar 1, Scalar 2]\<close> is one-dimensional, \<open>Array [Array [Scalar 1]]\<close>
  is two-dimensional.
\<close>

datatype 'f ndarray = Scalar 'f | Array "'f ndarray list"

text \<open>
  \<^verbatim>\<open>scaler.n_features_in_\<close>, \<^verbatim>\<open>scaler.transform(X)\<close> and \<^verbatim>\<open>model.predict(X)\<close>. The matrix
  passed to the scaler is the list of its rows. Both methods may raise, and \<^verbatim>\<open>predict\<close>
  may return an array of any shape. (Isabelle does not accept a name that ends in an
  underscore, so the attribute is \<open>n_features_in\<close> here.)
\<close>

record 'f scaler_artifact =
  n_features_in :: int
  transform :: "'f list list \<Rightarrow> exception + 'f list list"

record 'f model_artifact =
  predict :: "'f list list \<Rightarrow> exception + 'f ndarray"

text \<open>
  The module's global variables \<^verbatim>\<open>model\<close> and \<^verbatim>\<open>scaler\<close> (lines 13 to 17). The handlers
  below take the globals as an extensible record: the extension stands for everything
  else the process holds, the module's other globals included.
\<close>

record 'f globals =
  model :: "'f model_artifact"
  scaler :: "'f scaler_artifact"

text \<open>
  The operations on floating point numbers that the module relies on:
  \<^item> \<open>float_of_string\<close> is \<^verbatim>\<open>float(s)\<close> for a string (\<open>None\<close>: the string is not the text of a
    number);
  \<^item> \<open>float_of_bool\<close> is \<^verbatim>\<open>float(b)\<close> for a boolean;
  \<^item> \<open>float_of_array\<close> is what the schema library does with an array given for a field
    annotated \<^verbatim>\<open>float\<close>: the number it converts the array to, or the validation error it
    raises;
  \<^item> \<open>float_mul_int\<close> is the product of a floating point number and a Python integer, as in
    \<^verbatim>\<open>prediction * 100000\<close> for a scalar \<^verbatim>\<open>prediction\<close>.
\<close>

record 'f runtime =
  float_of_string :: "string \<Rightarrow> 'f option"
  float_of_bool :: "bool \<Rightarrow> 'f"
  float_of_array :: "'f ndarray list \<Rightarrow> exception + 'f"
  float_mul_int :: "'f \<Rightarrow> int \<Rightarrow> 'f"

subsection \<open>Schemas (lines 31 to 41)\<close>

record 'f HouseFeatures =
  MedInc :: 'f
  HouseAge :: 'f
  AveRooms :: 'f
  AveBedrms :: 'f
  AvePop :: 'f

text \<open>\<^verbatim>\<open>input_features: dict\<close> keeps its items in insertion order.\<close>

record 'f PredictionResponse =
  predicted_price :: 'f
  input_features :: "(string \<times> 'f) list"

text \<open>\<^verbatim>\<open>features.dict()\<close>: the declared fields, in the order of their declaration.\<close>

definition dict :: "'f HouseFeatures \<Rightarrow> (string \<times> 'f) list" where
  "dict features =
     [(''MedInc'', MedInc features), (''HouseAge'', HouseAge features),
      (''AveRooms'', AveRooms features), (''AveBedrms'', AveBedrms features),
      (''AvePop'', AvePop features)]"

subsection \<open>The handler of POST /predict (lines 131 to 150)\<close>

text \<open>\<^verbatim>\<open>np.array([[...]])\<close> of the five fields, and \<^verbatim>\<open>a.shape[1]\<close> of a matrix.\<close>

definition input_data :: "'f HouseFeatures \<Rightarrow> 'f list list" where
  "input_data features =
     [[MedInc features, HouseAge features, AveRooms features,
       AveBedrms features, AvePop features]]"

definition shape1 :: "'a list list \<Rightarrow> nat" where
  "shape1 a = (case a of [] \<Rightarrow> 0 | row # _ \<Rightarrow> length row)"

text \<open>\<^verbatim>\<open>a[0]\<close> on a value of the array library.\<close>

definition getitem0 :: "'f ndarray \<Rightarrow> exception + 'f ndarray" where
  "getitem0 a =
     (case a of
        Scalar _ \<Rightarrow>
          Inl (IndexError
            ''too many indices for array: array is 0-dimensional, but 1 were indexed'')
      | Array [] \<Rightarrow> Inl (IndexError ''index 0 is out of bounds for axis 0 with size 0'')
      | Array (x # _) \<Rightarrow> Inr x)"

text \<open>\<^verbatim>\<open>a * n\<close> for an integer \<open>n\<close>: the product is taken element by element.\<close>

definition ndarray_mul_int :: "'f runtime \<Rightarrow> 'f ndarray \<Rightarrow> int \<Rightarrow> 'f ndarray" where
  "ndarray_mul_int rt a n = map_ndarray (\<lambda>x. float_mul_int rt x n) a"

text \<open>
  \<^verbatim>\<open>PredictionResponse(predicted_price=..., input_features=...)\<close> (lines 145 to 148): the
  schema library validates \<^verbatim>\<open>predicted_price\<close> against \<^verbatim>\<open>float\<close>. A floating point scalar
  is a \<^verbatim>\<open>float\<close> and is taken as it is; an array is left to \<open>float_of_array\<close>, which may
  raise. The dictionary needs no conversion.
\<close>

definition PredictionResponse_init ::
  "'f runtime \<Rightarrow> 'f ndarray \<Rightarrow> (string \<times> 'f) list \<Rightarrow> exception + 'f PredictionResponse"
where
  "PredictionResponse_init rt price features_dict =
     (case price of
        Scalar x \<Rightarrow> Inr \<lparr>predicted_price = x, input_features = features_dict\<rparr>
      | Array xs \<Rightarrow>
          (case float_of_array rt xs of
             Inl e \<Rightarrow> Inl e
           | Inr x \<Rightarrow> Inr \<lparr>predicted_price = x, input_features = features_dict\<rparr>))"

definition width_error :: "'f scaler_artifact \<Rightarrow> 'f list list \<Rightarrow> exception" where
  "width_error sc a =
     ValueError (''Scaler expects '' @ str_int (n_features_in sc) @ '' features, got ''
                 @ str_nat (shape1 a))"

text \<open>The body of the \<^verbatim>\<open>try\<close> block.\<close>

definition predict_house_price_try ::
  "'f runtime \<Rightarrow> ('f, 'z) globals_scheme \<Rightarrow> 'f HouseFeatures \<Rightarrow>
   exception + 'f PredictionResponse"
where
  "predict_house_price_try rt g features =
     (if int (shape1 (input_data features)) \<noteq> n_features_in (scaler g)
      then Inl (width_error (scaler g) (input_data features))
      else
        (case transform (scaler g) (input_data features) of
           Inl e \<Rightarrow> Inl e
         | Inr input_scaled \<Rightarrow>
             (case predict (model g) input_scaled of
                Inl e \<Rightarrow> Inl e
              | Inr out \<Rightarrow>
                  (case getitem0 out of
                     Inl e \<Rightarrow> Inl e
                   | Inr prediction \<Rightarrow>
                       PredictionResponse_init rt
                         (ndarray_mul_int rt prediction 100000) (dict features)))))"

text \<open>The handler: the \<^verbatim>\<open>try\<close> block under \<^verbatim>\<open>except Exception as e\<close>.\<close>

definition predict_house_price ::
  "'f runtime \<Rightarrow> ('f, 'z) globals_scheme \<Rightarrow> 'f HouseFeatures \<Rightarrow>
   http_exception + 'f PredictionResponse"
where
  "predict_house_price rt g features =
     (case predict_house_price_try rt g features of
        Inl e \<Rightarrow> Inl (HTTPException 500 (''Prediction error: '' @ str e))
      | Inr r \<Rightarrow> Inr r)"

subsection \<open>The page of GET / (lines 44 to 126)\<close>

text \<open>
  The handler returns one string literal. It is written here line by line, split where
  the form element starts and ends: \<open>frontend_head\<close> holds the lines before the form (the
  first one is empty, since the literal starts with a line break), \<open>frontend_form\<close> the
  lines of the form and \<open>frontend_tail\<close> the lines after it. A \<open>char\<close> is a byte of the UTF-8
  encoding, so the one character outside ASCII (U+1F3E0) is four bytes.
\<close>

definition frontend_head :: "string list" where
  \<open>frontend_head =
    ['''',
     ''    <!DOCTYPE html>'',
     ''    <html>'',
     ''    <head>'',
     ''        <title>House Price Prediction</title>'',
     ''        <link href="https://fonts.googleapis.com/css2?family=Roboto:wght@400;700&display=swap" rel="stylesheet">'',
     ''        <style>'',
     ''            body {'',
     ''                font-family: 'Roboto', sans-serif;'',
     ''                background: linear-gradient(135deg, #6a11cb 0%, #2575fc 100%);'',
     ''                display: flex;'',
     ''                justify-content: center;'',
     ''                align-items: center;'',
     ''                height: 100vh;'',
     ''                margin: 0;'',
     ''            }'',
     ''            .card {'',
     ''                background: white;'',
     ''                padding: 30px;'',
     ''                border-radius: 15px;'',
     ''                box-shadow: 0 4px 20px rgba(0,0,0,0.2);'',
     ''                max-width: 400px;'',
     ''                width: 100%;'',
     ''            }'',
     ''            h1 { color: #2575fc; text-align: center; }'',
     ''            input, button {'',
     ''                width: 100%;'',
     ''                padding: 10px;'',
     ''                margin: 8px 0;'',
     ''                border-radius: 8px;'',
     ''                border: 1px solid #ccc;'',
     ''            }'',
     ''            button {'',
     ''                background: #2575fc;'',
     ''                color: white;'',
     ''                border: none;'',
     ''                cursor: pointer;'',
     ''                font-size: 1.1em;'',
     ''            }'',
     ''            button:hover { background: #1a5edc; }'',
     ''            #result { margin-top: 10px; text-align: center; font-weight: bold; }'',
     ''        </style>'',
     ''    </head>'',
     ''    <body>'',
     ''        <div class="card">'',
     ''            <h1>'' @ [CHR 0xF0, CHR 0x9F, CHR 0x8F, CHR 0xA0] @ '' Predict Price</h1>'']\<close>

definition frontend_form :: "string list" where
  \<open>frontend_form =
    [''            <form id="predictionForm">'',
     ''                <input type="number" step="any" name="MedInc" placeholder="Median Income" required>'',
     ''                <input type="number" step="any" name="HouseAge" placeholder="House Age" required>'',
     ''                <input type="number" step="any" name="AveRooms" placeholder="Average Rooms" required>'',
     ''                <input type="number" step="any" name="AveBedrms" placeholder="Average Bedrooms" required>'',
     ''                <input type="number" step="any" name="AvePop" placeholder="Average Population" required>'',
     ''                <button type="submit">Predict Price</button>'',
     ''            </form>'']\<close>

definition frontend_tail :: "string list" where
  \<open>frontend_tail =
    [''            <div id="result"></div>'',
     ''        </div>'',
     ''        <script>'',
     ''            document.getElementById("predictionForm").addEventListener("submit", async function(e) {'',
     ''                e.preventDefault();'',
     ''                const formData = new FormData(e.target);'',
     ''                const data = Object.fromEntries(formData.entries());'',
     ''                for (let key in data) data[key] = parseFloat(data[key]);'',
     ''                '',
     ''                const response = await fetch("/predict", {'',
     ''                    method: "POST",'',
     ''                    headers: { "Content-Type": "application/json" },'',
     ''                    body: JSON.stringify(data)'',
     ''                });'',
     ''                const result = await response.json();'',
     ''                if (response.ok) {'',
     ''                    document.getElementById("result").textContent = "Predicted Price: $" + result.predicted_price.toFixed(2);'',
     ''                    document.getElementById("result").style.color = "green";'',
     ''                } else {'',
     ''                    document.getElementById("result").textContent = "Error: " + result.detail;'',
     ''                    document.getElementById("result").style.color = "red";'',
     ''                }'',
     ''            });'',
     ''        </script>'',
     ''    </body>'',
     ''    </html>'',
     ''    '']\<close>

fun join_lines :: "string list \<Rightarrow> string" where
  "join_lines [] = []"
| "join_lines [l] = l"
| "join_lines (l # ls) = l @ CHR 10 # join_lines ls"

definition frontend :: string where
  "frontend = join_lines (frontend_head @ frontend_form @ frontend_tail)"

text \<open>The number of positions of a text at which a word starts.\<close>

fun occurrences :: "'a list \<Rightarrow> 'a list \<Rightarrow> nat" where
  "occurrences needle [] = (if needle = [] then 1 else 0)"
| "occurrences needle (c # cs) =
     (if prefix needle (c # cs) then 1 else 0) + occurrences needle cs"

subsection \<open>Request validation and the two routes\<close>

text \<open>
  The body of a \<^verbatim>\<open>POST /predict\<close> request is a parsed JSON object, a dictionary from
  names to JSON values; \<open>JNumber x\<close> is a JSON number and \<open>x\<close> the floating point number it
  denotes. Bodies that are not JSON objects and routes other than the two registered ones
  are not part of the model.
\<close>

datatype 'f json =
    JNull
  | JBool bool
  | JNumber 'f
  | JString string
  | JArray "'f json list"
  | JObject "(string \<times> 'f json) list"

text \<open>
  The schema library's conversion of a JSON value for a field annotated \<^verbatim>\<open>float\<close>
  (\<open>None\<close>: the value is rejected). The schema declares no strict mode, so besides numbers
  the library takes a boolean and a string that is the text of a number.
\<close>

definition float_validator :: "'f runtime \<Rightarrow> 'f json \<Rightarrow> 'f option" where
  "float_validator rt v =
     (case v of
        JNumber x \<Rightarrow> Some x
      | JBool b \<Rightarrow> Some (float_of_bool rt b)
      | JString s \<Rightarrow> float_of_string rt s
      | _ \<Rightarrow> None)"

text \<open>
  The parameter \<^verbatim>\<open>features: HouseFeatures\<close> makes the framework build the schema object
  from the body before it calls the handler: every declared field must be present and
  accepted by \<open>float_validator\<close>; fields that the schema does not declare are not looked at.
  When a field fails, the handler is not called and the response is 422 with one error
  for each failing field.
\<close>

datatype field_error = Field_required | Not_a_valid_float

definition HouseFeatures_fields :: "string list" where
  "HouseFeatures_fields = [''MedInc'', ''HouseAge'', ''AveRooms'', ''AveBedrms'', ''AvePop'']"

definition validate_field ::
  "'f runtime \<Rightarrow> (string \<rightharpoonup> 'f json) \<Rightarrow> string \<Rightarrow> field_error + 'f"
where
  "validate_field rt body name =
     (case body name of
        None \<Rightarrow> Inl Field_required
      | Some v \<Rightarrow>
          (case float_validator rt v of
             None \<Rightarrow> Inl Not_a_valid_float
           | Some x \<Rightarrow> Inr x))"

definition field_errors ::
  "'f runtime \<Rightarrow> (string \<rightharpoonup> 'f json) \<Rightarrow> string \<Rightarrow> (string \<times> field_error) list"
where
  "field_errors rt body name =
     (case validate_field rt body name of Inl err \<Rightarrow> [(name, err)] | Inr _ \<Rightarrow> [])"

definition HouseFeatures_validate ::
  "'f runtime \<Rightarrow> (string \<rightharpoonup> 'f json) \<Rightarrow>
   (string \<times> field_error) list + 'f HouseFeatures"
where
  "HouseFeatures_validate rt body =
     (case (validate_field rt body ''MedInc'', validate_field rt body ''HouseAge'',
            validate_field rt body ''AveRooms'', validate_field rt body ''AveBedrms'',
            validate_field rt body ''AvePop'') of
        (Inr a, Inr b, Inr c, Inr d, Inr e) \<Rightarrow>
          Inr \<lparr>MedInc = a, HouseAge = b, AveRooms = c, AveBedrms = d, AvePop = e\<rparr>
      | _ \<Rightarrow> Inl (concat (map (field_errors rt body) HouseFeatures_fields)))"

datatype 'f content =
    HTML string
  | Prediction "'f PredictionResponse"
  | Detail string
  | Validation_errors "(string \<times> field_error) list"

datatype 'f response = Response (status: nat) (content: "'f content")

datatype 'f request = GET_root | POST_predict "string \<rightharpoonup> 'f json"

text \<open>\<^verbatim>\<open>GET /\<close>: the handler \<^verbatim>\<open>frontend\<close> under \<^verbatim>\<open>response_class=HTMLResponse\<close>.\<close>

definition get_root :: "'f response" where
  "get_root = Response 200 (HTML frontend)"

text \<open>
  \<^verbatim>\<open>POST /predict\<close>: validation, then the handler; an \<^verbatim>\<open>HTTPException\<close> becomes a
  response with its status code and the body \<^verbatim>\<open>{"detail": ...}\<close>, and a returned
  \<^verbatim>\<open>PredictionResponse\<close> becomes a response with status 200. A response is described by
  its status and the object it carries; the encoding of that object as JSON text is the
  framework's and is not modelled.
\<close>

definition post_predict ::
  "'f runtime \<Rightarrow> ('f, 'z) globals_scheme \<Rightarrow> (string \<rightharpoonup> 'f json) \<Rightarrow> 'f response"
where
  "post_predict rt g body =
     (case HouseFeatures_validate rt body of
        Inl errs \<Rightarrow> Response 422 (Validation_errors errs)
      | Inr features \<Rightarrow>
          (case predict_house_price rt g features of
             Inl exc \<Rightarrow> Response (status_code exc) (Detail (detail exc))
           | Inr r \<Rightarrow> Response 200 (Prediction r)))"

subsection \<open>The process: loading the artifacts, then serving requests\<close>

text \<open>
  Lines 13 to 20. For each of the two files, the disk gives what
  \<^verbatim>\<open>with open(path, "rb") as file: x = pickle.load(file)\<close> does: it raises, or it binds
  the unpickled object. A missing file raises \<^verbatim>\<open>FileNotFoundError\<close>.
\<close>

record 'f disk =
  MODEL_FILE :: "exception + 'f model_artifact"
  SCALER_FILE :: "exception + 'f scaler_artifact"

definition missing :: "exception + 'a \<Rightarrow> bool" where
  "missing file = (case file of Inl e \<Rightarrow> cls e = ''FileNotFoundError'' | Inr _ \<Rightarrow> False)"

definition load_artifacts :: "'f disk \<Rightarrow> exception + 'f globals" where
  "load_artifacts d =
     (case (case MODEL_FILE d of
              Inl e \<Rightarrow> Inl e
            | Inr m \<Rightarrow>
                (case SCALER_FILE d of
                   Inl e \<Rightarrow> Inl e
                 | Inr s \<Rightarrow> Inr \<lparr>model = m, scaler = s\<rparr>)) of
        Inl e \<Rightarrow>
          (if cls e = ''FileNotFoundError''
           then Inl (RuntimeError ('' Required file missing: '' @ str e))
           else Inl e)
      | Inr g \<Rightarrow> Inr g)"

text \<open>
  A request is handled against the module's globals. No handler assigns to them, so the
  globals after a request are the globals before it.
\<close>

fun handle ::
  "'f runtime \<Rightarrow> ('f, 'z) globals_scheme \<Rightarrow> 'f request \<Rightarrow>
   ('f, 'z) globals_scheme \<times> 'f response"
where
  "handle rt g GET_root = (g, get_root)"
| "handle rt g (POST_predict body) = (g, post_predict rt g body)"

fun serve ::
  "'f runtime \<Rightarrow> ('f, 'z) globals_scheme \<Rightarrow> 'f request list \<Rightarrow>
   ('f, 'z) globals_scheme \<times> 'f response list"
where
  "serve rt g [] = (g, [])"
| "serve rt g (r # rs) =
     (case handle rt g r of
        (g', resp) \<Rightarrow> (case serve rt g' rs of (g'', resps) \<Rightarrow> (g'', resp # resps)))"

text \<open>
  The process: the module is executed, and only when that has not raised does the server
  take requests.
\<close>

definition process ::
  "'f runtime \<Rightarrow> 'f disk \<Rightarrow> 'f request list \<Rightarrow> exception + 'f globals \<times> 'f response list"
where
  "process rt d requests =
     (case load_artifacts d of
        Inl e \<Rightarrow> Inl e
      | Inr g \<Rightarrow> Inr (serve rt g requests))"

subsection \<open>A concrete runtime and concrete artifacts\<close>

text \<open>
  Used to evaluate the model. The numbers are real numbers with exact arithmetic; the
  inputs of the examples below are chosen so that every value that occurs is a binary
  fraction that 64-bit floating point arithmetic computes without rounding, so the
  interpreter's arithmetic gives the same values.

  \<open>parse_decimal\<close> reads a signed decimal numeral with an optional fraction
  (\<^verbatim>\<open>41\<close>, \<^verbatim>\<open>-7.25\<close>, \<^verbatim>\<open>.5\<close>). The interpreter's \<^verbatim>\<open>float\<close> takes more (exponents, blanks
  around the numeral, \<^verbatim>\<open>inf\<close>, \<^verbatim>\<open>nan\<close>); the examples use none of these.
\<close>

definition digit_value :: "char \<Rightarrow> nat option" where
  "digit_value c =
     map_of [(CHR ''0'', 0), (CHR ''1'', 1), (CHR ''2'', 2), (CHR ''3'', 3), (CHR ''4'', 4),
             (CHR ''5'', 5), (CHR ''6'', 6), (CHR ''7'', 7), (CHR ''8'', 8), (CHR ''9'', 9)] c"

fun digits_value :: "string \<Rightarrow> nat \<Rightarrow> nat option" where
  "digits_value [] acc = Some acc"
| "digits_value (c # cs) acc =
     (case digit_value c of None \<Rightarrow> None | Some d \<Rightarrow> digits_value cs (10 * acc + d))"

definition parse_unsigned :: "string \<Rightarrow> real option" where
  "parse_unsigned s =
     (let whole = takeWhile (\<lambda>c. c \<noteq> CHR ''.'') s;
          fraction = drop 1 (dropWhile (\<lambda>c. c \<noteq> CHR ''.'') s)
      in if whole @ fraction = [] then None
         else (case (digits_value whole 0, digits_value fraction 0) of
                 (Some w, Some f) \<Rightarrow> Some (real w + real f / 10 ^ length fraction)
               | _ \<Rightarrow> None))"

definition parse_decimal :: "string \<Rightarrow> real option" where
  "parse_decimal s =
     (case s of
        [] \<Rightarrow> None
      | c # cs \<Rightarrow>
          (if c = CHR ''-'' then map_option uminus (parse_unsigned cs)
           else if c = CHR ''+'' then parse_unsigned cs
           else parse_unsigned s))"

text \<open>
  The validation error that the schema library raises for an array given as
  \<^verbatim>\<open>predicted_price\<close>; only the first line of its text is kept.
\<close>

definition array_rejected :: exception where
  "array_rejected = Exception ''ValidationError'' ''1 validation error for PredictionResponse''"

definition example_runtime :: "real runtime" where
  "example_runtime =
     \<lparr>float_of_string = parse_decimal,
      float_of_bool = (\<lambda>b. if b then 1 else 0),
      float_of_array = (\<lambda>xs. Inl array_rejected),
      float_mul_int = (\<lambda>x n. x * of_int n)\<rparr>"

text \<open>A scaler that halves every entry and a model that adds up each row.\<close>

definition halving_scaler :: "int \<Rightarrow> real scaler_artifact" where
  "halving_scaler n = \<lparr>n_features_in = n, transform = (\<lambda>a. Inr (map (map (\<lambda>x. x / 2)) a))\<rparr>"

definition summing_model :: "real model_artifact" where
  "summing_model = \<lparr>predict = (\<lambda>a. Inr (Array (map (\<lambda>row. Scalar (sum_list row)) a)))\<rparr>"

definition example_globals :: "int \<Rightarrow> real globals" where
  "example_globals n = \<lparr>model = summing_model, scaler = halving_scaler n\<rparr>"

definition example_body :: "string \<rightharpoonup> real json" where
  "example_body =
     [''MedInc'' \<mapsto> JNumber 8.5, ''HouseAge'' \<mapsto> JNumber 41, ''AveRooms'' \<mapsto> JNumber 7,
      ''AveBedrms'' \<mapsto> JNumber 1, ''AvePop'' \<mapsto> JNumber 322]"

definition example_features :: "real HouseFeatures" where
  "example_features =
     \<lparr>MedInc = 8.5, HouseAge = 41, AveRooms = 7, AveBedrms = 1, AvePop = 322\<rparr>"

text \<open>A model that returns its predictions as a column, a two-dimensional array.\<close>

definition column_model :: "real model_artifact" where
  "column_model =
     \<lparr>predict = (\<lambda>a. Inr (Array (map (\<lambda>row. Array [Scalar (sum_list row)]) a)))\<rparr>"

text \<open>A scaler whose \<^verbatim>\<open>transform\<close> raises.\<close>

definition raising_scaler :: "exception \<Rightarrow> real scaler_artifact" where
  "raising_scaler e = \<lparr>n_features_in = 5, transform = (\<lambda>a. Inl e)\<rparr>"

text \<open>A model whose outputs are those of \<open>m\<close> on another scale, \<open>h\<close> applied to each.\<close>

definition rescaled :: "('f \<Rightarrow> 'f) \<Rightarrow> 'f model_artifact \<Rightarrow> 'f model_artifact" where
  "rescaled h m =
     \<lparr>predict =
        (\<lambda>a. case predict m a of Inl e \<Rightarrow> Inl e | Inr out \<Rightarrow> Inr (map_ndarray h out))\<rparr>"

text \<open>A disk that holds both artifacts.\<close>

definition example_disk :: "real disk" where
  "example_disk = \<lparr>MODEL_FILE = Inr summing_model, SCALER_FILE = Inr (halving_scaler 5)\<rparr>"

text \<open>
  What the disk gives for a file that does not exist: the text of the exception holds the
  path between single quotes.
\<close>

definition missing_file :: "string \<Rightarrow> exception + 'a" where
  "missing_file path =
     Inl (FileNotFoundError
       (''[Errno 2] No such file or directory: '' @ [CHR 0x27] @ path @ [CHR 0x27]))"

section \<open>Properties\<close>

subsection \<open>Auxiliary facts\<close>

lemma str_nat_digit: "n < 10 \<Longrightarrow> str_nat n = [digit_char n]"
  by (subst str_nat.simps) simp

lemma str_nat_5: "str_nat 5 = ''5''"
  by (simp add: str_nat_digit digit_char_def)

lemma str_int_examples:
  "str_int 13 = ''13''" "str_int (- 2) = ''-2''" "str_int 0 = ''0''" "str_int 105 = ''105''"
  by (simp_all add: str_int_def str_nat.simps digit_char_def)

lemma shape1_input_data: "shape1 (input_data features) = 5"
  by (simp add: shape1_def input_data_def)

lemma validate_Inr:
  assumes "validate_field rt body ''MedInc'' = Inr a"
    and "validate_field rt body ''HouseAge'' = Inr b"
    and "validate_field rt body ''AveRooms'' = Inr c"
    and "validate_field rt body ''AveBedrms'' = Inr d"
    and "validate_field rt body ''AvePop'' = Inr e"
  shows "HouseFeatures_validate rt body =
    Inr \<lparr>MedInc = a, HouseAge = b, AveRooms = c, AveBedrms = d, AvePop = e\<rparr>"
  using assms by (simp add: HouseFeatures_validate_def)

lemma validate_Inr_fields:
  assumes "HouseFeatures_validate rt body = Inr features"
  shows "validate_field rt body ''MedInc'' = Inr (MedInc features) \<and>
    validate_field rt body ''HouseAge'' = Inr (HouseAge features) \<and>
    validate_field rt body ''AveRooms'' = Inr (AveRooms features) \<and>
    validate_field rt body ''AveBedrms'' = Inr (AveBedrms features) \<and>
    validate_field rt body ''AvePop'' = Inr (AvePop features)"
  using assms by (auto simp: HouseFeatures_validate_def split: sum.splits)



lemma try_width_mismatch:
  assumes "n_features_in (scaler g) \<noteq> 5"
  shows "predict_house_price_try rt g features =
    Inl (ValueError (''Scaler expects '' @ str_int (n_features_in (scaler g)) @ '' features, got 5''))"
  using assms by (simp add: predict_house_price_try_def shape1_input_data width_error_def str_nat_5)

lemma try_success:
  assumes "n_features_in (scaler g) = 5"
    and "transform (scaler g) (input_data features) = Inr input_scaled"
    and "predict (model g) input_scaled = Inr (Array (Scalar y # ys))"
  shows "predict_house_price_try rt g features =
    Inr \<lparr>predicted_price = float_mul_int rt y 100000, input_features = dict features\<rparr>"
  using assms
  by (simp add: predict_house_price_try_def shape1_input_data getitem0_def
      ndarray_mul_int_def PredictionResponse_init_def)


lemma handle_globals: "fst (handle rt g r) = g"
  by (cases r) simp_all

lemma handle_eq: "handle rt g r = (g, snd (handle rt g r))"
  by (cases r) simp_all

lemma serve_globals: "fst (serve rt g rs) = g"
proof (induction rs)
  case Nil
  show ?case by simp
next
  case (Cons r rs)
  obtain resp where h: "handle rt g r = (g, resp)"
    using handle_eq by blast
  obtain resps where s: "serve rt g rs = (g, resps)"
    using Cons.IH by (metis prod.collapse)
  show ?case by (simp add: h s)
qed

lemma serve_Cons: "serve rt g (r # rs) = (g, snd (handle rt g r) # snd (serve rt g rs))"
proof -
  obtain resp where h: "handle rt g r = (g, resp)"
    using handle_eq by blast
  obtain resps where s: "serve rt g rs = (g, resps)"
    using serve_globals [of rt g rs] by (metis prod.collapse)
  show ?thesis by (simp add: h s)
qed

lemma serve_responses: "snd (serve rt g rs) = map (\<lambda>r. snd (handle rt g r)) rs"
  by (induction rs) (simp_all add: serve_Cons del: serve.simps(2))

lemma try_raises:
  assumes "predict_house_price_try rt g features = Inl e"
  shows "predict_house_price rt g features = Inl (HTTPException 500 (''Prediction error: '' @ str e))"
  using assms by (simp add: predict_house_price_def)

lemma post_predict_valid:
  assumes "HouseFeatures_validate rt body = Inr features"
  shows "post_predict rt g body =
    (case predict_house_price_try rt g features of
       Inl e \<Rightarrow> Response 500 (Detail (''Prediction error: '' @ str e))
     | Inr r \<Rightarrow> Response 200 (Prediction r))"
  using assms by (simp add: post_predict_def predict_house_price_def split: sum.splits)


lemma try_cases:
  assumes "n_features_in (scaler g) = 5"
    and "predict_house_price_try rt g features = Inl e"
  shows "transform (scaler g) (input_data features) = Inl e \<or>
    (\<exists>s. transform (scaler g) (input_data features) = Inr s \<and>
      (predict (model g) s = Inl e \<or>
       (\<exists>out. predict (model g) s = Inr out \<and>
         (getitem0 out = Inl e \<or>
          (\<exists>p. getitem0 out = Inr p \<and>
            PredictionResponse_init rt (ndarray_mul_int rt p 100000) (dict features) = Inl e)))))"
  using assms
  by (auto simp: predict_house_price_try_def shape1_input_data split: sum.splits)

lemma PredictionResponse_init_features:
  assumes "PredictionResponse_init rt price d = Inr r"
  shows "input_features r = d"
  using assms
  by (auto simp: PredictionResponse_init_def split: ndarray.splits sum.splits)

lemma try_input_features:
  assumes "predict_house_price_try rt g features = Inr r"
  shows "input_features r = dict features"
  using assms
  by (auto simp: predict_house_price_try_def PredictionResponse_init_features
      split: sum.splits if_splits)

lemma validate_field_add:
  assumes "name \<notin> dom extras"
  shows "validate_field rt (body ++ extras) name = validate_field rt body name"
  using assms by (simp add: validate_field_def map_add_dom_app_simps)

lemma field_errors_add:
  assumes "name \<notin> dom extras"
  shows "field_errors rt (body ++ extras) name = field_errors rt body name"
  using assms by (simp add: field_errors_def validate_field_add)

lemma validate_add:
  assumes "dom extras \<inter> set HouseFeatures_fields = {}"
  shows "HouseFeatures_validate rt (body ++ extras) = HouseFeatures_validate rt body"
proof -
  have v: "validate_field rt (body ++ extras) name = validate_field rt body name"
    if "name \<in> set HouseFeatures_fields" for name
    using that assms by (intro validate_field_add) blast
  have e: "field_errors rt (body ++ extras) name = field_errors rt body name"
    if "name \<in> set HouseFeatures_fields" for name
    using that assms by (intro field_errors_add) blast
  have errs: "map (field_errors rt (body ++ extras)) HouseFeatures_fields =
      map (field_errors rt body) HouseFeatures_fields"
    using e by simp
  have v1: "validate_field rt (body ++ extras) ''MedInc'' = validate_field rt body ''MedInc''"
    by (rule v) (simp add: HouseFeatures_fields_def)
  have v2: "validate_field rt (body ++ extras) ''HouseAge'' = validate_field rt body ''HouseAge''"
    by (rule v) (simp add: HouseFeatures_fields_def)
  have v3: "validate_field rt (body ++ extras) ''AveRooms'' = validate_field rt body ''AveRooms''"
    by (rule v) (simp add: HouseFeatures_fields_def)
  have v4: "validate_field rt (body ++ extras) ''AveBedrms'' = validate_field rt body ''AveBedrms''"
    by (rule v) (simp add: HouseFeatures_fields_def)
  have v5: "validate_field rt (body ++ extras) ''AvePop'' = validate_field rt body ''AvePop''"
    by (rule v) (simp add: HouseFeatures_fields_def)
  show ?thesis
    unfolding HouseFeatures_validate_def errs v1 v2 v3 v4 v5 ..
qed

lemma prefix_before_separator:
  assumes "sep \<notin> set needle"
  shows "prefix needle (a @ sep # b) \<longleftrightarrow> prefix needle a"
proof
  assume "prefix needle (a @ sep # b)"
  then have "prefix needle a \<or> (\<exists>us. needle = a @ us \<and> prefix us (sep # b))"
    by (simp add: prefix_append)
  then show "prefix needle a"
  proof
    assume "prefix needle a"
    then show ?thesis .
  next
    assume "\<exists>us. needle = a @ us \<and> prefix us (sep # b)"
    then obtain us where us: "needle = a @ us" "prefix us (sep # b)"
      by blast
    show ?thesis
    proof (cases us)
      case Nil
      with us show ?thesis by simp
    next
      case (Cons u us')
      with us have "u = sep" by simp
      with us Cons assms show ?thesis by simp
    qed
  qed
next
  assume "prefix needle a"
  then show "prefix needle (a @ sep # b)" by (rule prefix_prefix)
qed

lemma occurrences_separator:
  assumes "sep \<notin> set needle" and "needle \<noteq> []"
  shows "occurrences needle (a @ sep # b) = occurrences needle a + occurrences needle b"
proof (induction a)
  case Nil
  have "\<not> prefix needle (sep # b)"
    using assms by (cases needle) auto
  with assms show ?case by simp
next
  case (Cons c a)
  have "prefix needle (c # a @ sep # b) \<longleftrightarrow> prefix needle (c # a)"
    using prefix_before_separator [OF assms(1), of "c # a" b] by simp
  with Cons show ?case by simp
qed

lemma occurrences_join_lines:
  assumes "CHR 10 \<notin> set needle" and "needle \<noteq> []"
  shows "occurrences needle (join_lines ls) = sum_list (map (occurrences needle) ls)"
proof (induction ls rule: join_lines.induct)
  case 1
  with assms show ?case by simp
next
  case (2 l)
  show ?case by simp
next
  case (3 l v va)
  with assms show ?case by (simp add: occurrences_separator)
qed

lemma join_lines_append:
  assumes "xs \<noteq> []" and "ys \<noteq> []"
  shows "join_lines (xs @ ys) = join_lines xs @ CHR 10 # join_lines ys"
  using assms
proof (induction xs rule: join_lines.induct)
  case 1
  then show ?case by simp
next
  case (2 l)
  then show ?case by (cases ys) simp_all
next
  case (3 l v va)
  then show ?case by simp
qed

text \<open>
  Each stage of the \<^verbatim>\<open>try\<close> block can raise: the width check (\<open>try_width_mismatch\<close>), the
  scaler, the model, the indexing of the model's output and the construction of the
  response object.
\<close>

lemma try_transform_raises:
  assumes "n_features_in (scaler g) = 5"
    and "transform (scaler g) (input_data features) = Inl e"
  shows "predict_house_price_try rt g features = Inl e"
  using assms by (simp add: predict_house_price_try_def shape1_input_data)

lemma try_predict_raises:
  assumes "n_features_in (scaler g) = 5"
    and "transform (scaler g) (input_data features) = Inr input_scaled"
    and "predict (model g) input_scaled = Inl e"
  shows "predict_house_price_try rt g features = Inl e"
  using assms by (simp add: predict_house_price_try_def shape1_input_data)

lemma try_getitem_raises:
  assumes "n_features_in (scaler g) = 5"
    and "transform (scaler g) (input_data features) = Inr input_scaled"
    and "predict (model g) input_scaled = Inr out"
    and "getitem0 out = Inl e"
  shows "predict_house_price_try rt g features = Inl e"
  using assms by (simp add: predict_house_price_try_def shape1_input_data)

lemma try_response_raises:
  assumes "n_features_in (scaler g) = 5"
    and "transform (scaler g) (input_data features) = Inr input_scaled"
    and "predict (model g) input_scaled = Inr out"
    and "getitem0 out = Inr prediction"
    and "PredictionResponse_init rt (ndarray_mul_int rt prediction 100000) (dict features) = Inl e"
  shows "predict_house_price_try rt g features = Inl e"
  using assms by (simp add: predict_house_price_try_def shape1_input_data)

lemma post_predict_200:
  assumes "validate_field rt body ''MedInc'' = Inr x1"
    and "validate_field rt body ''HouseAge'' = Inr x2"
    and "validate_field rt body ''AveRooms'' = Inr x3"
    and "validate_field rt body ''AveBedrms'' = Inr x4"
    and "validate_field rt body ''AvePop'' = Inr x5"
    and "n_features_in (scaler g) = 5"
    and "transform (scaler g) [[x1, x2, x3, x4, x5]] = Inr input_scaled"
    and "predict (model g) input_scaled = Inr (Array (Scalar y # ys))"
  shows "post_predict rt g body =
    Response 200 (Prediction
      \<lparr>predicted_price = float_mul_int rt y 100000,
       input_features = [(''MedInc'', x1), (''HouseAge'', x2), (''AveRooms'', x3),
                         (''AveBedrms'', x4), (''AvePop'', x5)]\<rparr>)"
proof -
  let ?features = "\<lparr>MedInc = x1, HouseAge = x2, AveRooms = x3, AveBedrms = x4, AvePop = x5\<rparr>"
  have v: "HouseFeatures_validate rt body = Inr ?features"
    using assms(1-5) by (rule validate_Inr)
  have "transform (scaler g) (input_data ?features) = Inr input_scaled"
    using assms(7) by (simp add: input_data_def)
  then have "predict_house_price_try rt g ?features =
      Inr \<lparr>predicted_price = float_mul_int rt y 100000, input_features = dict ?features\<rparr>"
    using assms(6) assms(8) by (intro try_success)
  then show ?thesis
    by (simp add: post_predict_valid [OF v] dict_def)
qed

lemma example_validate:
  "HouseFeatures_validate example_runtime example_body = Inr example_features"
  by (simp add: HouseFeatures_validate_def validate_field_def float_validator_def
      example_body_def example_features_def)

lemma example_input_data:
  "input_data example_features = [[8.5, 41, 7, 1, 322]]"
  by (simp add: input_data_def example_features_def)

lemma example_globals_simps:
  "n_features_in (scaler (example_globals n)) = n"
  "transform (scaler (example_globals n)) a = Inr (map (map (\<lambda>x. x / 2)) a)"
  "predict (model (example_globals n)) a = Inr (Array (map (\<lambda>row. Scalar (sum_list row)) a))"
  by (simp_all add: example_globals_def halving_scaler_def summing_model_def)

lemma example_try:
  "predict_house_price_try example_runtime (example_globals 5) example_features =
     Inr \<lparr>predicted_price = 18975000, input_features = dict example_features\<rparr>"
proof -
  have "predict_house_price_try example_runtime (example_globals 5) example_features =
     Inr \<lparr>predicted_price = float_mul_int example_runtime 189.75 100000,
          input_features = dict example_features\<rparr>"
    by (rule try_success [where input_scaled = "[[4.25, 20.5, 3.5, 0.5, 161]]" and ys = "[]"])
      (simp_all add: example_globals_simps example_input_data)
  then show ?thesis
    by (simp add: example_runtime_def)
qed

lemma str_int_8: "str_int 8 = ''8''"
  by (simp add: str_int_def str_nat_digit digit_char_def)

lemma str_int_4: "str_int 4 = ''4''"
  by (simp add: str_int_def str_nat_digit digit_char_def)

subsection \<open>POST /predict on a valid body\<close>

text \<open>
  C1, as amended. A request whose body holds all five required fields as numbers is
  answered with status 200 when the loaded scaler expects five features, neither the
  scaler's \<^verbatim>\<open>transform\<close> nor the model's \<^verbatim>\<open>predict\<close> raises, and \<^verbatim>\<open>predict\<close> returns a
  one-dimensional array with at least one value (its first element is a scalar). Then
  \<open>predicted_price\<close> is the first value that the model returns for the scaler's image of
  the one-row matrix \<open>[MedInc, HouseAge, AveRooms, AveBedrms, AvePop]\<close>, multiplied by 100000,
  and \<open>input_features\<close> holds the five unscaled inputs.
\<close>

theorem predict_returns_rescaled_price:
  assumes "validate_field rt body ''MedInc'' = Inr x1"
    and "validate_field rt body ''HouseAge'' = Inr x2"
    and "validate_field rt body ''AveRooms'' = Inr x3"
    and "validate_field rt body ''AveBedrms'' = Inr x4"
    and "validate_field rt body ''AvePop'' = Inr x5"
    and "n_features_in (scaler g) = 5"
    and "transform (scaler g) [[x1, x2, x3, x4, x5]] = Inr input_scaled"
    and "predict (model g) input_scaled = Inr (Array (Scalar y # ys))"
  shows "post_predict rt g body =
    Response 200 (Prediction
      \<lparr>predicted_price = float_mul_int rt y 100000,
       input_features = [(''MedInc'', x1), (''HouseAge'', x2), (''AveRooms'', x3),
                         (''AveBedrms'', x4), (''AvePop'', x5)]\<rparr>)"
  using assms by (rule post_predict_200)

theorem predict_returns_rescaled_price_witness:
  "post_predict example_runtime (example_globals 5) example_body =
    Response 200 (Prediction
      \<lparr>predicted_price = 18975000,
       input_features = [(''MedInc'', 8.5), (''HouseAge'', 41), (''AveRooms'', 7),
                         (''AveBedrms'', 1), (''AvePop'', 322)]\<rparr>)"
  using predict_returns_rescaled_price [of example_runtime example_body "8.5" 41 7 1 322
      "example_globals 5" "[[4.25, 20.5, 3.5, 0.5, 161]]" "189.75" "[]"]
  by (simp add: validate_field_def float_validator_def example_body_def example_globals_simps)
    (simp add: example_runtime_def)

text \<open>
  Without the condition on the scaler the statement fails: with a scaler that expects
  eight features, the same body is answered with status 500.
\<close>

theorem predict_width_8_counterexample:
  "validate_field example_runtime example_body ''MedInc'' = Inr 8.5 \<and>
   validate_field example_runtime example_body ''HouseAge'' = Inr 41 \<and>
   validate_field example_runtime example_body ''AveRooms'' = Inr 7 \<and>
   validate_field example_runtime example_body ''AveBedrms'' = Inr 1 \<and>
   validate_field example_runtime example_body ''AvePop'' = Inr 322 \<and>
   post_predict example_runtime (example_globals 8) example_body =
     Response 500 (Detail ''Prediction error: Scaler expects 8 features, got 5'') \<and>
   status (post_predict example_runtime (example_globals 8) example_body) \<noteq> 200"
proof -
  have "post_predict example_runtime (example_globals 8) example_body =
     Response 500 (Detail ''Prediction error: Scaler expects 8 features, got 5'')"
    by (simp add: post_predict_valid [OF example_validate] try_width_mismatch
        example_globals_simps str_int_8 ValueError_def)
  then show ?thesis
    by (simp add: validate_field_def float_validator_def example_body_def)
qed

text \<open>
  The condition on the shape of the model's output is needed as well: when the model
  returns its prediction as a column, the value given as \<^verbatim>\<open>predicted_price\<close> is an array,
  the construction of the response object raises, and the response is 500.
\<close>

lemma column_model_is_500:
  "post_predict example_runtime \<lparr>model = column_model, scaler = halving_scaler 5\<rparr> example_body =
     Response 500 (Detail ''Prediction error: 1 validation error for PredictionResponse'')"
proof -
  have "predict_house_price_try example_runtime
      \<lparr>model = column_model, scaler = halving_scaler 5\<rparr> example_features = Inl array_rejected"
    by (rule try_response_raises
        [where input_scaled = "[[4.25, 20.5, 3.5, 0.5, 161]]"
           and out = "Array [Array [Scalar 189.75]]" and prediction = "Array [Scalar 189.75]"])
      (simp_all add: example_input_data halving_scaler_def column_model_def getitem0_def
        ndarray_mul_int_def PredictionResponse_init_def example_runtime_def)
  then show ?thesis
    by (simp add: post_predict_valid [OF example_validate] array_rejected_def)
qed

subsection \<open>Failures of the pipeline\<close>

text \<open>
  C2. When the column count of the assembled matrix differs from the scaler's
  \<^verbatim>\<open>n_features_in_\<close>, the \<^verbatim>\<open>try\<close> block raises a \<^verbatim>\<open>ValueError\<close> whose message names both
  widths, the response is a server error (500) whose detail contains
  \<open>Prediction error\<close>, and the process goes on: the globals are unchanged and the requests
  that follow are served as before.
\<close>

theorem width_mismatch_is_request_error:
  assumes "HouseFeatures_validate rt body = Inr features"
    and "int (shape1 (input_data features)) \<noteq> n_features_in (scaler g)"
  shows "predict_house_price_try rt g features =
      Inl (ValueError (''Scaler expects '' @ str_int (n_features_in (scaler g))
                       @ '' features, got 5'')) \<and>
    post_predict rt g body =
      Response 500 (Detail (''Prediction error: Scaler expects ''
                            @ str_int (n_features_in (scaler g)) @ '' features, got 5'')) \<and>
    (\<exists>msg. content (post_predict rt g body) = Detail msg \<and> sublist ''Prediction error'' msg) \<and>
    serve rt g (POST_predict body # rs) = (g, post_predict rt g body # snd (serve rt g rs))"
proof -
  have n: "n_features_in (scaler g) \<noteq> 5"
    using assms(2) by (simp add: shape1_input_data)
  have t: "predict_house_price_try rt g features =
      Inl (ValueError (''Scaler expects '' @ str_int (n_features_in (scaler g))
                       @ '' features, got 5''))"
    using n by (rule try_width_mismatch)
  have p: "post_predict rt g body =
      Response 500 (Detail (''Prediction error: Scaler expects ''
                            @ str_int (n_features_in (scaler g)) @ '' features, got 5''))"
    by (simp add: post_predict_valid [OF assms(1)] t ValueError_def)
  have "sublist ''Prediction error''
      (''Prediction error'' @ '': Scaler expects '' @ str_int (n_features_in (scaler g))
        @ '' features, got 5'')"
    by (rule prefix_imp_sublist) simp
  then have d: "\<exists>msg. content (post_predict rt g body) = Detail msg \<and> sublist ''Prediction error'' msg"
    by (simp add: p)
  have s: "serve rt g (POST_predict body # rs) = (g, post_predict rt g body # snd (serve rt g rs))"
    by (simp add: serve_Cons del: serve.simps)
  from t p d s show ?thesis by blast
qed

theorem width_mismatch_is_request_error_witness:
  "predict_house_price_try example_runtime (example_globals 8) example_features =
      Inl (ValueError ''Scaler expects 8 features, got 5'') \<and>
   post_predict example_runtime (example_globals 8) example_body =
      Response 500 (Detail ''Prediction error: Scaler expects 8 features, got 5'') \<and>
   serve example_runtime (example_globals 8) [POST_predict example_body, GET_root] =
      (example_globals 8,
       [Response 500 (Detail ''Prediction error: Scaler expects 8 features, got 5''),
        Response 200 (HTML frontend)])"
  using width_mismatch_is_request_error [OF example_validate, of "example_globals 8" "[GET_root]"]
  by (simp add: shape1_input_data example_globals_simps str_int_8 get_root_def)

text \<open>
  C3. Whatever exception the \<^verbatim>\<open>try\<close> block raises, the handler raises
  \<^verbatim>\<open>HTTPException\<close> with status 500 and the detail \<open>Prediction error: \<close> followed by the
  exception's \<^verbatim>\<open>str\<close>, and the response is 500 with that detail as its body.
\<close>

theorem exception_becomes_500:
  assumes "HouseFeatures_validate rt body = Inr features"
    and "predict_house_price_try rt g features = Inl e"
  shows "predict_house_price rt g features =
      Inl (HTTPException 500 (''Prediction error: '' @ str e)) \<and>
    post_predict rt g body = Response 500 (Detail (''Prediction error: '' @ str e))"
  using assms(2) by (simp add: post_predict_valid [OF assms(1)] try_raises)

theorem exception_becomes_500_witness:
  "post_predict example_runtime
     \<lparr>model = summing_model, scaler = raising_scaler (ValueError ''Input contains NaN.'')\<rparr>
     example_body =
   Response 500 (Detail ''Prediction error: Input contains NaN.'')"
proof -
  let ?g = "\<lparr>model = summing_model, scaler = raising_scaler (ValueError ''Input contains NaN.'')\<rparr>"
  have "predict_house_price_try example_runtime ?g example_features =
      Inl (ValueError ''Input contains NaN.'')"
    by (rule try_transform_raises) (simp_all add: raising_scaler_def)
  from exception_becomes_500 [OF example_validate this] show ?thesis
    by (simp add: ValueError_def)
qed

text \<open>
  C9. When the loaded scaler expects five features, the width check never fires: the
  assembled matrix always has five columns, the condition of the check is false, and any
  exception of the \<^verbatim>\<open>try\<close> block comes from the scaler, the model, the indexing or the
  construction of the response object.
\<close>

theorem width_check_passes_for_five_features:
  assumes "n_features_in (scaler g) = 5"
  shows "shape1 (input_data features) = 5 \<and>
    \<not> int (shape1 (input_data features)) \<noteq> n_features_in (scaler g) \<and>
    (\<forall>e. predict_house_price_try rt g features = Inl e \<longrightarrow>
      transform (scaler g) (input_data features) = Inl e \<or>
      (\<exists>s. transform (scaler g) (input_data features) = Inr s \<and>
        (predict (model g) s = Inl e \<or>
         (\<exists>out. predict (model g) s = Inr out \<and>
           (getitem0 out = Inl e \<or>
            (\<exists>p. getitem0 out = Inr p \<and>
              PredictionResponse_init rt (ndarray_mul_int rt p 100000) (dict features) =
                Inl e))))))"
proof (intro conjI allI impI)
  show "shape1 (input_data features) = 5"
    by (rule shape1_input_data)
  show "\<not> int (shape1 (input_data features)) \<noteq> n_features_in (scaler g)"
    using assms by (simp add: shape1_input_data)
  fix e
  assume "predict_house_price_try rt g features = Inl e"
  with assms show "transform (scaler g) (input_data features) = Inl e \<or>
      (\<exists>s. transform (scaler g) (input_data features) = Inr s \<and>
        (predict (model g) s = Inl e \<or>
         (\<exists>out. predict (model g) s = Inr out \<and>
           (getitem0 out = Inl e \<or>
            (\<exists>p. getitem0 out = Inr p \<and>
              PredictionResponse_init rt (ndarray_mul_int rt p 100000) (dict features) =
                Inl e)))))"
    by (rule try_cases)
qed

theorem width_check_passes_for_five_features_witness:
  "shape1 (input_data example_features) = 5 \<and>
   int (shape1 (input_data example_features)) = n_features_in (scaler (example_globals 5)) \<and>
   predict_house_price_try example_runtime (example_globals 5) example_features =
     Inr \<lparr>predicted_price = 18975000, input_features = dict example_features\<rparr>"
  using width_check_passes_for_five_features
    [of "example_globals 5" example_features example_runtime] example_try
  by (simp add: example_globals_simps)

subsection \<open>Validation of the request body\<close>




text \<open>
  C10. A body that contains the five required numeric fields and, besides them, any
  fields the schema does not declare passes validation with the same schema object, so
  the response is the one for the body without the additional fields; in a successful
  response \<open>input_features\<close> holds exactly the five declared fields.
\<close>

theorem extra_fields_are_ignored:
  assumes "dom extras \<inter> set HouseFeatures_fields = {}"
    and "HouseFeatures_validate rt body = Inr features"
  shows "HouseFeatures_validate rt (body ++ extras) = Inr features \<and>
    post_predict rt g (body ++ extras) = post_predict rt g body \<and>
    (\<forall>r. post_predict rt g (body ++ extras) = Response 200 (Prediction r) \<longrightarrow>
      input_features r = dict features \<and> map fst (input_features r) = HouseFeatures_fields)"
proof -
  have v: "HouseFeatures_validate rt (body ++ extras) = Inr features"
    using assms by (simp add: validate_add)
  have p: "post_predict rt g (body ++ extras) = post_predict rt g body"
    by (simp add: post_predict_def validate_add [OF assms(1)])
  have "input_features r = dict features \<and> map fst (input_features r) = HouseFeatures_fields"
    if "post_predict rt g (body ++ extras) = Response 200 (Prediction r)" for r
  proof -
    from that have "predict_house_price_try rt g features = Inr r"
      by (simp add: post_predict_valid [OF v] split: sum.splits)
    then have "input_features r = dict features"
      by (rule try_input_features)
    then show ?thesis
      by (simp add: dict_def HouseFeatures_fields_def)
  qed
  with v p show ?thesis by blast
qed

theorem extra_fields_are_ignored_witness:
  "post_predict example_runtime (example_globals 5)
     (example_body ++ [''Latitude'' \<mapsto> JNumber 37.875, ''note'' \<mapsto> JString ''x'']) =
   Response 200 (Prediction
      \<lparr>predicted_price = 18975000,
       input_features = [(''MedInc'', 8.5), (''HouseAge'', 41), (''AveRooms'', 7),
                         (''AveBedrms'', 1), (''AvePop'', 322)]\<rparr>)"
proof -
  have "post_predict example_runtime (example_globals 5) example_body =
    Response 200 (Prediction
      \<lparr>predicted_price = 18975000, input_features = dict example_features\<rparr>)"
    by (simp add: post_predict_valid [OF example_validate] example_try)
  then show ?thesis
    using extra_fields_are_ignored [OF _ example_validate,
        of "[''Latitude'' \<mapsto> JNumber 37.875, ''note'' \<mapsto> JString ''x'']" "example_globals 5"]
    by (simp add: HouseFeatures_fields_def dict_def example_features_def)
qed

subsection \<open>Requests do not interact\<close>



subsection \<open>Loading the artifacts\<close>

lemma load_artifacts_missing:
  assumes "missing (MODEL_FILE d) \<or> missing (SCALER_FILE d)"
  shows "\<exists>e. load_artifacts d = Inl e"
  using assms by (auto simp: load_artifacts_def missing_def split: sum.splits)

lemma load_artifacts_missing_first:
  assumes "missing (MODEL_FILE d) \<or> (\<exists>m. MODEL_FILE d = Inr m) \<and> missing (SCALER_FILE d)"
  shows "\<exists>msg. load_artifacts d = Inl (RuntimeError ('' Required file missing: '' @ msg))"
  using assms by (auto simp: load_artifacts_def missing_def split: sum.splits)

lemma load_artifacts_Inr:
  assumes "load_artifacts d = Inr g"
  shows "MODEL_FILE d = Inr (model g) \<and> SCALER_FILE d = Inr (scaler g)"
  using assms by (auto simp: load_artifacts_def split: sum.splits if_splits)

text \<open>
  C6. When the model file or the scaler file is missing, executing the module raises and
  the process ends without answering any request; the error is the \<^verbatim>\<open>RuntimeError\<close> of
  line 20 when the first file that fails to load is a missing one. When loading succeeds,
  the globals hold the two unpickled artifacts, every request is answered against these
  same globals, and the globals after any sequence of requests are the loaded ones.
\<close>

theorem artifacts_are_loaded_at_startup_only:
  "(missing (MODEL_FILE d) \<or> missing (SCALER_FILE d) \<longrightarrow>
      (\<exists>e. load_artifacts d = Inl e \<and> process rt d requests = Inl e)) \<and>
   (missing (MODEL_FILE d) \<or> (\<exists>m. MODEL_FILE d = Inr m) \<and> missing (SCALER_FILE d) \<longrightarrow>
      (\<exists>msg. process rt d requests = Inl (RuntimeError ('' Required file missing: '' @ msg)))) \<and>
   (\<forall>g. load_artifacts d = Inr g \<longrightarrow>
      MODEL_FILE d = Inr (model g) \<and> SCALER_FILE d = Inr (scaler g) \<and>
      fst (serve rt g requests) = g \<and>
      process rt d requests = Inr (g, map (\<lambda>r. snd (handle rt g r)) requests))"
proof (intro conjI allI impI)
  assume "missing (MODEL_FILE d) \<or> missing (SCALER_FILE d)"
  then obtain e where "load_artifacts d = Inl e"
    using load_artifacts_missing by blast
  then show "\<exists>e. load_artifacts d = Inl e \<and> process rt d requests = Inl e"
    by (simp add: process_def)
next
  assume "missing (MODEL_FILE d) \<or> (\<exists>m. MODEL_FILE d = Inr m) \<and> missing (SCALER_FILE d)"
  then obtain msg where "load_artifacts d = Inl (RuntimeError ('' Required file missing: '' @ msg))"
    using load_artifacts_missing_first by blast
  then have "process rt d requests = Inl (RuntimeError ('' Required file missing: '' @ msg))"
    by (simp add: process_def)
  then show "\<exists>msg. process rt d requests = Inl (RuntimeError ('' Required file missing: '' @ msg))"
    by (rule exI)
next
  fix g
  assume g: "load_artifacts d = Inr g"
  then show "MODEL_FILE d = Inr (model g)" and "SCALER_FILE d = Inr (scaler g)"
    using load_artifacts_Inr by blast+
  show "fst (serve rt g requests) = g"
    by (rule serve_globals)
  have "serve rt g requests = (g, map (\<lambda>r. snd (handle rt g r)) requests)"
    using serve_globals [of rt g requests] serve_responses [of rt g requests]
    by (metis prod.collapse)
  with g show "process rt d requests = Inr (g, map (\<lambda>r. snd (handle rt g r)) requests)"
    by (simp add: process_def)
qed

theorem artifacts_are_loaded_at_startup_only_witness:
  "process example_runtime
     \<lparr>MODEL_FILE = Inr summing_model, SCALER_FILE = missing_file ''/app/scaler.pkl''\<rparr>
     [GET_root] =
   Inl (RuntimeError ('' Required file missing: [Errno 2] No such file or directory: ''
                      @ [CHR 0x27] @ ''/app/scaler.pkl'' @ [CHR 0x27])) \<and>
   process example_runtime example_disk [GET_root, GET_root] =
     Inr (example_globals 5, [Response 200 (HTML frontend), Response 200 (HTML frontend)])"
proof -
  let ?d = "\<lparr>MODEL_FILE = Inr summing_model,
             SCALER_FILE = (missing_file ''/app/scaler.pkl'' :: exception + real scaler_artifact)\<rparr>"
  have l: "load_artifacts ?d =
      Inl (RuntimeError ('' Required file missing: [Errno 2] No such file or directory: ''
                         @ [CHR 0x27] @ ''/app/scaler.pkl'' @ [CHR 0x27]))"
    by (simp add: load_artifacts_def missing_file_def FileNotFoundError_def)
  have m: "missing (SCALER_FILE ?d)"
    by (simp add: missing_def missing_file_def FileNotFoundError_def)
  have e: "load_artifacts example_disk = Inr (example_globals 5)"
    by (simp add: load_artifacts_def example_disk_def example_globals_def)
  from artifacts_are_loaded_at_startup_only [of ?d example_runtime "[GET_root]"] m l
  have "process example_runtime ?d [GET_root] =
      Inl (RuntimeError ('' Required file missing: [Errno 2] No such file or directory: ''
                         @ [CHR 0x27] @ ''/app/scaler.pkl'' @ [CHR 0x27]))"
    by auto
  moreover from artifacts_are_loaded_at_startup_only [of example_disk example_runtime "[GET_root, GET_root]"] e
  have "process example_runtime example_disk [GET_root, GET_root] =
     Inr (example_globals 5, [Response 200 (HTML frontend), Response 200 (HTML frontend)])"
    by (simp add: get_root_def)
  ultimately show ?thesis by simp
qed

subsection \<open>Artifacts that differ from what the handler assumes\<close>

text \<open>
  C7, as amended. A scaler whose expected feature count differs from five does not pass
  silently: the width check makes every request fail with status 500 and a
  \<open>Prediction error\<close> detail. A change of the model's output scale is not detected: when
  the pipeline succeeds with some model, it succeeds with the same model on any other
  scale, and the price is the value on that scale multiplied by the same 100000.
\<close>

theorem width_change_fails_scale_change_is_silent:
  "(n_features_in (scaler g) \<noteq> 5 \<longrightarrow>
      predict_house_price rt g features =
        Inl (HTTPException 500 (''Prediction error: Scaler expects ''
               @ str_int (n_features_in (scaler g)) @ '' features, got 5''))) \<and>
   (n_features_in (scaler g) = 5 \<and>
    transform (scaler g) (input_data features) = Inr input_scaled \<and>
    predict (model g) input_scaled = Inr (Array (Scalar y # ys)) \<longrightarrow>
      predict_house_price rt (g\<lparr>model := rescaled h (model g)\<rparr>) features =
        Inr \<lparr>predicted_price = float_mul_int rt (h y) 100000,
             input_features = dict features\<rparr>)"
proof (intro conjI impI)
  assume "n_features_in (scaler g) \<noteq> 5"
  then show "predict_house_price rt g features =
        Inl (HTTPException 500 (''Prediction error: Scaler expects ''
               @ str_int (n_features_in (scaler g)) @ '' features, got 5''))"
    by (simp add: try_raises [OF try_width_mismatch] ValueError_def)
next
  assume a: "n_features_in (scaler g) = 5 \<and>
    transform (scaler g) (input_data features) = Inr input_scaled \<and>
    predict (model g) input_scaled = Inr (Array (Scalar y # ys))"
  let ?g = "g\<lparr>model := rescaled h (model g)\<rparr>"
  have "predict_house_price_try rt ?g features =
      Inr \<lparr>predicted_price = float_mul_int rt (h y) 100000, input_features = dict features\<rparr>"
    using a by (intro try_success [where input_scaled = input_scaled and ys = "map (map_ndarray h) ys"])
      (simp_all add: rescaled_def)
  then show "predict_house_price rt ?g features =
        Inr \<lparr>predicted_price = float_mul_int rt (h y) 100000,
             input_features = dict features\<rparr>"
    by (simp add: predict_house_price_def)
qed

theorem width_change_fails_scale_change_is_silent_witness:
  "predict_house_price example_runtime (example_globals 3) example_features =
     Inl (HTTPException 500 ''Prediction error: Scaler expects 3 features, got 5'') \<and>
   predict_house_price example_runtime
     ((example_globals 5)\<lparr>model := rescaled (\<lambda>y. y * 100000) summing_model\<rparr>) example_features =
     Inr \<lparr>predicted_price = 1897500000000, input_features = dict example_features\<rparr>"
  using width_change_fails_scale_change_is_silent
    [where g = "example_globals 3" and rt = example_runtime and features = example_features]
    width_change_fails_scale_change_is_silent
    [where g = "example_globals 5" and rt = example_runtime and features = example_features
       and input_scaled = "[[4.25, 20.5, 3.5, 0.5, 161]]" and y = "189.75" and ys = "[]"
       and h = "\<lambda>y. y * 100000"]
  by (simp add: example_globals_simps example_input_data str_int_def str_nat_digit digit_char_def
      example_runtime_def) (simp add: example_globals_def)

text \<open>
  The claim as it stands says that no failure path exists for an artifact whose expected
  feature count is not five. A scaler that expects four features refutes it.
\<close>

theorem width_4_fails_counterexample:
  "n_features_in (scaler (example_globals 4)) \<noteq> 5 \<and>
   predict_house_price example_runtime (example_globals 4) example_features =
     Inl (HTTPException 500 ''Prediction error: Scaler expects 4 features, got 5'') \<and>
   post_predict example_runtime (example_globals 4) example_body =
     Response 500 (Detail ''Prediction error: Scaler expects 4 features, got 5'')"
  by (simp add: post_predict_valid [OF example_validate] try_raises [OF try_width_mismatch]
      try_width_mismatch example_globals_simps str_int_4 ValueError_def)

subsection \<open>The page of GET /\<close>

text \<open>
  The names of the fields contain no line break, so their occurrences in the page are
  their occurrences in its lines.
\<close>

lemma occurrences_MedInc:
  "sum_list (map (occurrences ''MedInc'') frontend_head) = 0"
  "sum_list (map (occurrences ''MedInc'') frontend_form) = 1"
  "sum_list (map (occurrences ''MedInc'') frontend_tail) = 0"
  by (simp_all add: frontend_head_def frontend_form_def frontend_tail_def)

lemma occurrences_HouseAge:
  "sum_list (map (occurrences ''HouseAge'') frontend_head) = 0"
  "sum_list (map (occurrences ''HouseAge'') frontend_form) = 1"
  "sum_list (map (occurrences ''HouseAge'') frontend_tail) = 0"
  by (simp_all add: frontend_head_def frontend_form_def frontend_tail_def)

lemma occurrences_AveRooms:
  "sum_list (map (occurrences ''AveRooms'') frontend_head) = 0"
  "sum_list (map (occurrences ''AveRooms'') frontend_form) = 1"
  "sum_list (map (occurrences ''AveRooms'') frontend_tail) = 0"
  by (simp_all add: frontend_head_def frontend_form_def frontend_tail_def)

lemma occurrences_AveBedrms:
  "sum_list (map (occurrences ''AveBedrms'') frontend_head) = 0"
  "sum_list (map (occurrences ''AveBedrms'') frontend_form) = 1"
  "sum_list (map (occurrences ''AveBedrms'') frontend_tail) = 0"
  by (simp_all add: frontend_head_def frontend_form_def frontend_tail_def)

lemma occurrences_AvePop:
  "sum_list (map (occurrences ''AvePop'') frontend_head) = 0"
  "sum_list (map (occurrences ''AvePop'') frontend_form) = 1"
  "sum_list (map (occurrences ''AvePop'') frontend_tail) = 0"
  by (simp_all add: frontend_head_def frontend_form_def frontend_tail_def)

lemma frontend_parts_nonempty:
  "frontend_head \<noteq> []" "frontend_form \<noteq> []" "frontend_tail \<noteq> []"
  by (simp_all add: frontend_head_def frontend_form_def frontend_tail_def)

lemma frontend_split:
  "frontend =
     join_lines frontend_head @ CHR 10 # join_lines frontend_form @ CHR 10 # join_lines frontend_tail"
  by (simp add: frontend_def join_lines_append frontend_parts_nonempty)

lemma occurrences_frontend:
  assumes "CHR 10 \<notin> set needle" and "needle \<noteq> []"
  shows "occurrences needle frontend =
    sum_list (map (occurrences needle) frontend_head) +
    sum_list (map (occurrences needle) frontend_form) +
    sum_list (map (occurrences needle) frontend_tail)"
  using assms by (simp add: frontend_def occurrences_join_lines)

text \<open>
  C8. \<^verbatim>\<open>GET /\<close> takes no input and is answered with status 200 and the same HTML
  document, whatever the globals are. The document consists of the lines before the form,
  the form element and the lines after it, and each of the five field names occurs
  exactly once in the document, inside the form.
\<close>

theorem frontend_is_a_fixed_page:
  \<open>handle rt g GET_root = (g, Response 200 (HTML frontend)) \<and>
   frontend =
     join_lines frontend_head @ CHR 10 # join_lines frontend_form @ CHR 10 # join_lines frontend_tail \<and>
   hd frontend_form = ''            <form id="predictionForm">'' \<and>
   last frontend_form = ''            </form>'' \<and>
   occurrences ''MedInc'' frontend = 1 \<and>
   occurrences ''HouseAge'' frontend = 1 \<and>
   occurrences ''AveRooms'' frontend = 1 \<and>
   occurrences ''AveBedrms'' frontend = 1 \<and>
   occurrences ''AvePop'' frontend = 1 \<and>
   occurrences ''MedInc'' (join_lines frontend_form) = 1 \<and>
   occurrences ''HouseAge'' (join_lines frontend_form) = 1 \<and>
   occurrences ''AveRooms'' (join_lines frontend_form) = 1 \<and>
   occurrences ''AveBedrms'' (join_lines frontend_form) = 1 \<and>
   occurrences ''AvePop'' (join_lines frontend_form) = 1\<close>
proof -
  have "handle rt g GET_root = (g, Response 200 (HTML frontend))"
    by (simp add: get_root_def)
  moreover have \<open>hd frontend_form = ''            <form id="predictionForm">''\<close>
    and "last frontend_form = ''            </form>''"
    by (simp_all add: frontend_form_def)
  moreover have "occurrences ''MedInc'' frontend = 1"
    and "occurrences ''HouseAge'' frontend = 1"
    and "occurrences ''AveRooms'' frontend = 1"
    and "occurrences ''AveBedrms'' frontend = 1"
    and "occurrences ''AvePop'' frontend = 1"
    by (simp_all add: occurrences_frontend occurrences_MedInc occurrences_HouseAge occurrences_AveRooms occurrences_AveBedrms occurrences_AvePop)
  moreover have "occurrences ''MedInc'' (join_lines frontend_form) = 1"
    and "occurrences ''HouseAge'' (join_lines frontend_form) = 1"
    and "occurrences ''AveRooms'' (join_lines frontend_form) = 1"
    and "occurrences ''AveBedrms'' (join_lines frontend_form) = 1"
    and "occurrences ''AvePop'' (join_lines frontend_form) = 1"
    by (simp_all add: occurrences_join_lines occurrences_MedInc occurrences_HouseAge occurrences_AveRooms occurrences_AveBedrms occurrences_AvePop)
  ultimately show ?thesis
    using frontend_split by blast
qed

theorem frontend_is_a_fixed_page_witness:
  "serve example_runtime (example_globals 5) [GET_root, POST_predict example_body, GET_root] =
     (example_globals 5,
      [Response 200 (HTML frontend),
       post_predict example_runtime (example_globals 5) example_body,
       Response 200 (HTML frontend)]) \<and>
   occurrences ''AvePop'' frontend = 1"
  using frontend_is_a_fixed_page [of example_runtime "example_globals 5"]
  by (simp add: get_root_def)

end
